theory Spec2Isabelle
  imports Main "HOL-Library.Sublist"
begin

section \<open>Python values of the listing pipeline\<close>

text \<open>
  A Python \<open>str\<close> is a sequence of Unicode code points, so a string is a list of
  code points here (\<open>\<euro>\<close> is 8364, the no-break space is 160). \<open>ustr\<close> turns an ASCII
  literal into such a string.
\<close>

type_synonym pychar = nat
type_synonym pystr = "pychar list"

definition ustr :: "string \<Rightarrow> pystr" where
  "ustr s = map of_char s"

datatype pyexn = ValueError | TypeError | AttributeError | OverflowError | IntegrityError

text \<open>
  The values a JSON document carries. A dict keeps the text that \<open>str()\<close> gives for it
  beside its items, since the \<open>repr\<close> of containers is not modelled. \<open>POther\<close> stands for
  a float or a list, given by what this code can observe of it: its truth value, the
  text of \<open>str()\<close> and the outcome of \<open>int()\<close>.
\<close>

datatype pyval =
    PNone
  | PBool bool
  | PInt int
  | PStr pystr
  | PDict "(pystr \<times> pyval) list" pystr
  | POther bool pystr "pyexn + int"

type_synonym pydict = "(pystr \<times> pyval) list"

text \<open>\<open>d.get(key, default)\<close>\<close>

definition dget :: "pydict \<Rightarrow> string \<Rightarrow> pyval \<Rightarrow> pyval" where
  "dget d key dflt = (case map_of d (ustr key) of None \<Rightarrow> dflt | Some v \<Rightarrow> v)"

text \<open>The truth value of a value, as \<open>if v:\<close> and \<open>not v\<close> test it.\<close>

fun truthy :: "pyval \<Rightarrow> bool" where
  "truthy PNone = False"
| "truthy (PBool b) = b"
| "truthy (PInt i) = (i \<noteq> 0)"
| "truthy (PStr s) = (s \<noteq> [])"
| "truthy (PDict kvs txt) = (kvs \<noteq> [])"
| "truthy (POther t txt r) = t"

subsection \<open>Character classes (Unicode 14, as in CPython 3.11)\<close>

text \<open>\<open>str.isspace\<close>, the characters \<open>str.strip()\<close> removes.\<close>

definition py_isspace :: "pychar \<Rightarrow> bool" where
  "py_isspace c = (c \<in> set [9, 10, 11, 12, 13, 28, 29, 30, 31, 32, 133, 160, 5760,
     8192, 8193, 8194, 8195, 8196, 8197, 8198, 8199, 8200, 8201, 8202,
     8232, 8233, 8239, 8287, 12288])"

text \<open>
  The decimal digits (category Nd) come in runs of ten, zero first; these are the
  code points of the zeros.
\<close>

definition decimal_zeros :: "pychar list" where
  "decimal_zeros = [48, 1632, 1776, 1984, 2406, 2534, 2662, 2790, 2918, 3046, 3174,
     3302, 3430, 3558, 3664, 3792, 3872, 4160, 4240, 6112, 6160, 6470, 6608, 6784,
     6800, 6992, 7088, 7232, 7248, 42528, 43216, 43264, 43472, 43504, 43600, 44016,
     65296, 66720, 68912, 69734, 69872, 69942, 70096, 70384, 70736, 70864, 71248,
     71360, 71472, 71904, 72016, 72784, 73040, 73120, 92768, 92864, 93008, 120782,
     120792, 120802, 120812, 120822, 123200, 123632, 125264, 130032]"

definition decimal_value :: "pychar \<Rightarrow> nat option" where
  "decimal_value c =
     (case find (\<lambda>z. z \<le> c \<and> c < z + 10) decimal_zeros of
        None \<Rightarrow> None
      | Some z \<Rightarrow> Some (c - z))"

text \<open>
  The characters that are digits for \<open>str.isdigit\<close> without being decimal:
  superscripts, subscripts, circled and parenthesised digits and the like, as ranges.
\<close>

definition other_digits :: "(pychar \<times> pychar) list" where
  "other_digits = [(178, 179), (185, 185), (4969, 4977), (6618, 6618), (8304, 8304),
     (8308, 8313), (8320, 8329), (9312, 9320), (9332, 9340), (9352, 9360),
     (9450, 9450), (9461, 9469), (9471, 9471), (10102, 10110), (10112, 10120),
     (10122, 10130), (68160, 68163), (69216, 69224), (69714, 69722),
     (127232, 127242)]"

definition py_isdigit :: "pychar \<Rightarrow> bool" where
  "py_isdigit c =
     (decimal_value c \<noteq> None \<or> find (\<lambda>(lo, hi). lo \<le> c \<and> c \<le> hi) other_digits \<noteq> None)"

subsection \<open>String operations\<close>

text \<open>\<open>s.replace(old, '')\<close>: the occurrences of \<open>old\<close> are removed from left to right.\<close>

function remove_all :: "pystr \<Rightarrow> pystr \<Rightarrow> pystr" where
  "remove_all old [] = []"
| "remove_all old (c # cs) =
     (if old \<noteq> [] \<and> prefix old (c # cs)
      then remove_all old (drop (length old) (c # cs))
      else c # remove_all old cs)"
  by pat_completeness auto
termination
  by (relation "measure (\<lambda>(old, s). length s)") (auto simp: neq_Nil_conv)

text \<open>\<open>s.strip()\<close>\<close>

definition strip :: "pystr \<Rightarrow> pystr" where
  "strip s = rev (dropWhile py_isspace (rev (dropWhile py_isspace s)))"

text \<open>\<open>s.split('/')[-1]\<close>: what follows the last slash.\<close>

definition last_component :: "pystr \<Rightarrow> pystr" where
  "last_component s = rev (takeWhile (\<lambda>c. c \<noteq> 47) (rev s))"

subsection \<open>\<open>str()\<close> and \<open>int()\<close>\<close>

function digits_of_nat :: "nat \<Rightarrow> pystr" where
  "digits_of_nat n = (if n < 10 then [48 + n] else digits_of_nat (n div 10) @ [48 + n mod 10])"
  by pat_completeness auto
termination
  by (relation "measure id") auto

definition str_of_int :: "int \<Rightarrow> pystr" where
  "str_of_int i = (if i < 0 then 45 # digits_of_nat (nat (- i)) else digits_of_nat (nat i))"

fun py_str :: "pyval \<Rightarrow> pystr" where
  "py_str PNone = ustr ''None''"
| "py_str (PBool b) = (if b then ustr ''True'' else ustr ''False'')"
| "py_str (PInt i) = str_of_int i"
| "py_str (PStr s) = s"
| "py_str (PDict kvs txt) = txt"
| "py_str (POther t txt r) = txt"

text \<open>
  \<open>int(s)\<close> on a string, base 10: white space around the number is skipped (the ASCII
  white space of the C library and every Unicode space from 127 on, but not the ASCII
  separators 28 to 31), then an optional sign, then decimal digits of any script with
  single underscores allowed between digits. \<open>None\<close> is \<open>ValueError\<close>. The limit that
  recent interpreters put on the number of digits is not modelled.
\<close>

definition int_space :: "pychar \<Rightarrow> bool" where
  "int_space c = (c \<in> set [9, 10, 11, 12, 13, 32] \<or> (127 \<le> c \<and> py_isspace c))"

fun scan_digits :: "pystr \<Rightarrow> int \<Rightarrow> int option" where
  "scan_digits [] acc = Some acc"
| "scan_digits (c # cs) acc =
     (if c = 95 then
        (case cs of
           [] \<Rightarrow> None
         | d # ds \<Rightarrow>
             (case decimal_value d of
                None \<Rightarrow> None
              | Some v \<Rightarrow> scan_digits ds (acc * 10 + int v)))
      else
        (case decimal_value c of
           None \<Rightarrow> None
         | Some v \<Rightarrow> scan_digits cs (acc * 10 + int v)))"

definition scan_number :: "pystr \<Rightarrow> int option" where
  "scan_number s =
     (case s of
        [] \<Rightarrow> None
      | c # cs \<Rightarrow>
          (case decimal_value c of
             None \<Rightarrow> None
           | Some v \<Rightarrow> scan_digits cs (int v)))"

definition int_of_str :: "pystr \<Rightarrow> int option" where
  "int_of_str s =
     (let t = rev (dropWhile int_space (rev (dropWhile int_space s)))
      in case t of
           [] \<Rightarrow> None
         | c # cs \<Rightarrow>
             if c = 45 then map_option uminus (scan_number cs)
             else if c = 43 then scan_number cs
             else scan_number t)"

fun py_int :: "pyval \<Rightarrow> pyexn + int" where
  "py_int PNone = Inl TypeError"
| "py_int (PBool b) = Inr (if b then 1 else 0)"
| "py_int (PInt i) = Inr i"
| "py_int (PStr s) = (case int_of_str s of None \<Rightarrow> Inl ValueError | Some n \<Rightarrow> Inr n)"
| "py_int (PDict kvs txt) = Inl TypeError"
| "py_int (POther t txt r) = r"

section \<open>\<open>parse_number\<close>\<close>

text \<open>
  The units, the spaces and both separators are removed; what is left goes to \<open>int\<close>.
  When that raises \<open>ValueError\<close> the handler keeps the characters that \<open>isdigit\<close>
  accepts and calls \<open>int\<close> again, outside any handler.
\<close>

definition clean_number :: "pystr \<Rightarrow> pystr" where
  "clean_number s0 =
     (let s = remove_all (ustr ''EUR'') (remove_all [8364] (remove_all (ustr ''km'') s0));
          s = remove_all [160] (remove_all [160] (remove_all (ustr '' '') s));
          s = remove_all (ustr ''.'') (remove_all (ustr '','') s)
      in strip s)"

definition parse_number :: "pyval \<Rightarrow> pyexn + int option" where
  "parse_number value_str =
     (if \<not> truthy value_str \<or> value_str = PStr (ustr ''N/A'') then Inr None
      else
        let s = clean_number (py_str value_str)
        in if s = [] then Inr None
           else
             (case int_of_str s of
                Some n \<Rightarrow> Inr (Some n)
              | None \<Rightarrow>
                  (let digits = filter py_isdigit s
                   in if digits = [] then Inr None
                      else
                        (case int_of_str digits of
                           None \<Rightarrow> Inl ValueError
                         | Some n \<Rightarrow> Inr (Some n)))))"

section \<open>\<open>filter_listings\<close>\<close>

text \<open>
  The year of a listing: \<open>None\<close> when the field is empty or \<open>N/A\<close>, else the integer
  after the last slash, or the whole value when its text has no slash. Only a string
  has \<open>split\<close>.
\<close>

definition parse_year :: "pydict \<Rightarrow> pyexn + int option" where
  "parse_year item =
     (let year_str = dget item ''year'' (PStr [])
      in if truthy year_str \<and> year_str \<noteq> PStr (ustr ''N/A'') then
           (if 47 \<in> set (py_str year_str) then
              (case year_str of
                 PStr s \<Rightarrow>
                   (case int_of_str (last_component s) of
                      None \<Rightarrow> Inl ValueError
                    | Some y \<Rightarrow> Inr (Some y))
               | _ \<Rightarrow> Inl AttributeError)
            else
              (case py_int year_str of
                 Inl e \<Rightarrow> Inl e
               | Inr y \<Rightarrow> Inr (Some y)))
         else Inr None)"

text \<open>
  The three checks of the loop body. Each gives \<open>Inr True\<close> when its \<open>continue\<close> is
  taken. A bound counts as set when \<open>criteria.get(key)\<close> is true; the year is tested
  with \<open>if year and ...\<close>, mileage and price with \<open>is not None\<close>.
\<close>

definition year_filter :: "pydict \<Rightarrow> int option \<Rightarrow> pyexn + bool" where
  "year_filter criteria year =
     (if truthy (dget criteria ''modelYear'' PNone) then
        (case py_int (dget criteria ''modelYear'' PNone) of
           Inl e \<Rightarrow> Inl e
         | Inr min_year \<Rightarrow>
             Inr (case year of None \<Rightarrow> False | Some y \<Rightarrow> y \<noteq> 0 \<and> y < min_year))
      else Inr False)"

definition max_filter :: "pydict \<Rightarrow> string \<Rightarrow> int option \<Rightarrow> pyexn + bool" where
  "max_filter criteria key parsed =
     (if truthy (dget criteria key PNone) then
        (case py_int (dget criteria key PNone) of
           Inl e \<Rightarrow> Inl e
         | Inr max_value \<Rightarrow>
             Inr (case parsed of None \<Rightarrow> False | Some v \<Rightarrow> max_value < v))
      else Inr False)"

text \<open>
  The body of the \<open>try\<close> for one listing: \<open>Inr True\<close> when the listing is appended,
  \<open>Inr False\<close> when a \<open>continue\<close> skips it, \<open>Inl e\<close> when the body raises.
\<close>

definition filter_item :: "pydict \<Rightarrow> pydict \<Rightarrow> pyexn + bool" where
  "filter_item item criteria =
     (case parse_year item of
        Inl e \<Rightarrow> Inl e
      | Inr year \<Rightarrow>
     (case parse_number (dget item ''mileage'' (PStr [])) of
        Inl e \<Rightarrow> Inl e
      | Inr mileage \<Rightarrow>
     (case parse_number (dget item ''price'' (PStr [])) of
        Inl e \<Rightarrow> Inl e
      | Inr price \<Rightarrow>
     (case year_filter criteria year of
        Inl e \<Rightarrow> Inl e
      | Inr True \<Rightarrow> Inr False
      | Inr False \<Rightarrow>
     (case max_filter criteria ''mileage'' mileage of
        Inl e \<Rightarrow> Inl e
      | Inr True \<Rightarrow> Inr False
      | Inr False \<Rightarrow>
     (case max_filter criteria ''price'' price of
        Inl e \<Rightarrow> Inl e
      | Inr True \<Rightarrow> Inr False
      | Inr False \<Rightarrow> Inr True))))))"

text \<open>The loop: the handler of the \<open>try\<close> appends the listing as well.\<close>

fun filter_listings :: "pydict list \<Rightarrow> pydict \<Rightarrow> pydict list" where
  "filter_listings [] criteria = []"
| "filter_listings (item # listings) criteria =
     (case filter_item item criteria of
        Inl e \<Rightarrow> item # filter_listings listings criteria
      | Inr True \<Rightarrow> item # filter_listings listings criteria
      | Inr False \<Rightarrow> filter_listings listings criteria)"

text \<open>
  Which check, if any, skips a listing: the \<open>continue\<close> of the year check, or that
  of the mileage or price check (\<open>key\<close>), is reached with the field parsed.
\<close>

definition excluded_by_year :: "pydict \<Rightarrow> pydict \<Rightarrow> bool" where
  "excluded_by_year item criteria =
     (case parse_year item of
        Inl e \<Rightarrow> False
      | Inr year \<Rightarrow> year_filter criteria year = Inr True)"

definition excluded_by_max :: "string \<Rightarrow> pydict \<Rightarrow> pydict \<Rightarrow> bool" where
  "excluded_by_max key item criteria =
     (case parse_number (dget item key (PStr [])) of
        Inl e \<Rightarrow> False
      | Inr parsed \<Rightarrow> max_filter criteria key parsed = Inr True)"

section \<open>Normalising a scraped record\<close>

definition NA :: pyval where
  "NA = PStr (ustr ''N/A'')"

text \<open>\<open>str(v) if v != 'N/A' else 'N/A'\<close>\<close>

definition str_or_NA :: "pyval \<Rightarrow> pyval" where
  "str_or_NA v = (if v \<noteq> NA then PStr (py_str v) else NA)"

text \<open>The price of a record: the \<open>amount\<close> of a dict, else the value itself.\<close>

definition extract_price :: "pydict \<Rightarrow> pyval" where
  "extract_price item =
     (case dget item ''price'' NA of
        PDict kvs txt \<Rightarrow> dget kvs ''amount'' NA
      | price \<Rightarrow> price)"

text \<open>
  The \<open>details\<close> dict that \<open>get_vehicle_details\<close> builds from the first scraped record
  (\<open>url\<close> is the URL of the request). \<open>properties.get\<close> needs a dict: any other value
  raises \<open>AttributeError\<close>.
\<close>

definition vehicle_details :: "pyval \<Rightarrow> pydict \<Rightarrow> pyexn + pydict" where
  "vehicle_details url item =
     (let price = extract_price item;
          properties = dget item ''properties'' (PDict [] (ustr ''{}''))
      in case properties of
           PDict props txt \<Rightarrow>
             (let mileage = dget props ''milage'' (dget item ''mileage'' NA);
                  year = dget props ''firstRegistration'' (dget item ''year'' NA)
              in Inr [(ustr ''title'', dget item ''title'' NA),
                      (ustr ''price'', str_or_NA price),
                      (ustr ''url'', dget item ''url'' url),
                      (ustr ''mileage'', str_or_NA mileage),
                      (ustr ''year'', str_or_NA year),
                      (ustr ''fuel'', dget item ''fuel'' NA),
                      (ustr ''transmission'', dget item ''transmission'' NA),
                      (ustr ''power'', dget item ''power'' NA),
                      (ustr ''properties'', properties)])
         | _ \<Rightarrow> Inl AttributeError)"

text \<open>The \<open>listing\<close> dict that \<open>search\<close> builds from each scraped record.\<close>

definition search_listing :: "pydict \<Rightarrow> pyexn + pydict" where
  "search_listing item =
     (let price = extract_price item;
          properties = dget item ''properties'' (PDict [] (ustr ''{}''))
      in case properties of
           PDict props txt \<Rightarrow>
             (let mileage = dget props ''milage'' NA;
                  year = dget props ''firstRegistration'' NA
              in Inr [(ustr ''title'', dget item ''title'' (dget item ''name'' (PStr (ustr ''Vehicle'')))),
                      (ustr ''price'', str_or_NA price),
                      (ustr ''mileage'', str_or_NA mileage),
                      (ustr ''year'', str_or_NA year),
                      (ustr ''url'', dget item ''url'' (dget item ''link'' (PStr [])))])
         | _ \<Rightarrow> Inl AttributeError)"

section \<open>The vehicles table and \<open>save_vehicle_to_db\<close>\<close>

text \<open>
  A row of the \<open>vehicles\<close> table of \<open>init_database\<close>: \<open>id\<close> is the primary key,
  \<open>title\<close> is \<open>NOT NULL\<close>, \<open>url\<close> is \<open>UNIQUE\<close>, every other column may be null.
  \<open>next_id\<close> is the next value of the key's sequence.
\<close>

record vehicle_row =
  row_id :: int
  row_title :: pystr
  row_price :: "pystr option"
  row_mileage :: "pystr option"
  row_year :: "pystr option"
  row_fuel :: "pystr option"
  row_transmission :: "pystr option"
  row_power :: "pystr option"
  row_url :: "pystr option"
  row_properties :: "pystr option"

record database =
  rows :: "vehicle_row list"
  next_id :: int

datatype db_type = Postgres | Sqlite

text \<open>
  The vehicle record handed to \<open>save_vehicle_to_db\<close>, with the values bound to the text
  columns: a string, or \<open>None\<close> for null. \<open>vget\<close> is \<open>vehicle_data.get(key)\<close>.
\<close>

type_synonym vehicle_data = "(pystr \<times> pystr option) list"

definition vget :: "vehicle_data \<Rightarrow> string \<Rightarrow> pystr option" where
  "vget vehicle_data key = (case map_of vehicle_data (ustr key) of None \<Rightarrow> None | Some v \<Rightarrow> v)"

text \<open>\<open>SELECT id FROM vehicles WHERE url = ?\<close> with \<open>fetchone\<close>\<close>

definition select_by_url :: "pystr \<Rightarrow> database \<Rightarrow> vehicle_row option" where
  "select_by_url url db = find (\<lambda>r. row_url r = Some url) (rows db)"

text \<open>
  \<open>INSERT INTO vehicles\<close>: a null title or a url that a row already has violates a
  constraint and raises; the sequence of PostgreSQL has moved on by then, the counter of
  SQLite has not. Otherwise the row is added under the next id.
\<close>

definition insert_vehicle ::
  "db_type \<Rightarrow> vehicle_data \<Rightarrow> pystr option \<Rightarrow> pystr option \<Rightarrow> database
     \<Rightarrow> (pyexn + int) \<times> database" where
  "insert_vehicle dbt vehicle_data url properties_json db =
     (case vget vehicle_data ''title'' of
        None \<Rightarrow>
          (Inl IntegrityError, if dbt = Postgres then db\<lparr>next_id := next_id db + 1\<rparr> else db)
      | Some title \<Rightarrow>
          if url \<noteq> None \<and> url \<in> set (map row_url (rows db)) then
            (Inl IntegrityError, if dbt = Postgres then db\<lparr>next_id := next_id db + 1\<rparr> else db)
          else
            (Inr (next_id db),
             \<lparr>rows = rows db @
                [\<lparr>row_id = next_id db, row_title = title,
                  row_price = vget vehicle_data ''price'',
                  row_mileage = vget vehicle_data ''mileage'',
                  row_year = vget vehicle_data ''year'',
                  row_fuel = vget vehicle_data ''fuel'',
                  row_transmission = vget vehicle_data ''transmission'',
                  row_power = vget vehicle_data ''power'',
                  row_url = url,
                  row_properties = properties_json\<rparr>],
              next_id = next_id db + 1\<rparr>))"

text \<open>
  \<open>save_vehicle_to_db\<close>: \<open>properties_json\<close> is what \<open>json.dumps\<close> gives for the
  properties, or \<open>None\<close>. The lookup is made only when the url is true, that is neither
  null nor empty. An exception is caught and \<open>None\<close> returned.
\<close>

definition save_vehicle_to_db ::
  "db_type \<Rightarrow> pystr option \<Rightarrow> vehicle_data \<Rightarrow> database \<Rightarrow> int option \<times> database" where
  "save_vehicle_to_db dbt properties_json vehicle_data db =
     (let url = (case map_of vehicle_data (ustr ''url'') of None \<Rightarrow> Some [] | Some v \<Rightarrow> v);
          existing = (case url of
                        None \<Rightarrow> None
                      | Some u \<Rightarrow> if u \<noteq> [] then select_by_url u db else None)
      in case existing of
           Some r \<Rightarrow> (Some (row_id r), db)
         | None \<Rightarrow>
             (case insert_vehicle dbt vehicle_data url properties_json db of
                (Inl e, db') \<Rightarrow> (None, db')
              | (Inr vehicle_id, db') \<Rightarrow> (Some vehicle_id, db')))"

text \<open>No two rows share a url that is not null.\<close>

definition unique_urls :: "database \<Rightarrow> bool" where
  "unique_urls db = distinct (List.map_filter row_url (rows db))"

section \<open>Evaluation lemmas\<close>

lemma decimal_value_ascii:
  "decimal_value 48 = Some 0" "decimal_value 49 = Some 1" "decimal_value 50 = Some 2"
  "decimal_value 51 = Some 3" "decimal_value 52 = Some 4" "decimal_value 53 = Some 5"
  "decimal_value 54 = Some 6" "decimal_value 55 = Some 7" "decimal_value 56 = Some 8"
  "decimal_value 57 = Some 9"
  by (simp_all add: decimal_value_def decimal_zeros_def)

lemmas int_of_str_eval =
  int_of_str_def int_space_def scan_number_def decimal_value_ascii py_isspace_def

lemmas clean_number_eval = clean_number_def ustr_def strip_def py_isspace_def

lemma parse_number_falsy: "\<not> truthy v \<Longrightarrow> parse_number v = Inr None"
  by (simp add: parse_number_def)

lemma parse_number_NA: "parse_number (PStr (ustr ''N/A'')) = Inr None"
  by (simp add: parse_number_def)

lemma parse_number_parsed:
  assumes "truthy v" and "v \<noteq> PStr (ustr ''N/A'')"
    and "clean_number (py_str v) = s" and "s \<noteq> []" and "int_of_str s = Some n"
  shows "parse_number v = Inr (Some n)"
  using assms by (simp add: parse_number_def)

lemma filter_listings_eq:
  "filter_listings listings criteria =
     filter (\<lambda>item. filter_item item criteria \<noteq> Inr False) listings"
  by (induction listings) (auto split: sum.splits bool.splits)

section \<open>Properties of \<open>parse_number\<close>\<close>

text \<open>
  C2. \<open>parse_number\<close> gives \<open>None\<close> on the empty string and on \<open>N/A\<close>, and the exact
  integers on the formatted examples: \<open>110.000 km\<close> is 110000, \<open>45,000\<close> is 45000,
  \<open>1.234.567\<close> is 1234567 and \<open>\<euro> 25.000\<close> is 25000.
\<close>

theorem parse_number_examples:
  "parse_number (PStr (ustr '''')) = Inr None \<and>
   parse_number (PStr (ustr ''N/A'')) = Inr None \<and>
   parse_number (PStr (ustr ''110.000 km'')) = Inr (Some 110000) \<and>
   parse_number (PStr (ustr ''45,000'')) = Inr (Some 45000) \<and>
   parse_number (PStr (ustr ''1.234.567'')) = Inr (Some 1234567) \<and>
   parse_number (PStr (8364 # ustr '' 25.000'')) = Inr (Some 25000)"
proof -
  have e: "parse_number (PStr (ustr '''')) = Inr None"
    by (rule parse_number_falsy) (simp add: ustr_def)
  have a: "parse_number (PStr (ustr ''110.000 km'')) = Inr (Some 110000)"
  proof (rule parse_number_parsed)
    show "clean_number (py_str (PStr (ustr ''110.000 km''))) = [49, 49, 48, 48, 48, 48]"
      by (simp add: clean_number_eval)
    show "int_of_str [49, 49, 48, 48, 48, 48] = Some 110000"
      by (simp add: int_of_str_eval)
  qed (simp_all add: ustr_def)
  have b: "parse_number (PStr (ustr ''45,000'')) = Inr (Some 45000)"
  proof (rule parse_number_parsed)
    show "clean_number (py_str (PStr (ustr ''45,000''))) = [52, 53, 48, 48, 48]"
      by (simp add: clean_number_eval)
    show "int_of_str [52, 53, 48, 48, 48] = Some 45000"
      by (simp add: int_of_str_eval)
  qed (simp_all add: ustr_def)
  have c: "parse_number (PStr (ustr ''1.234.567'')) = Inr (Some 1234567)"
  proof (rule parse_number_parsed)
    show "clean_number (py_str (PStr (ustr ''1.234.567''))) = [49, 50, 51, 52, 53, 54, 55]"
      by (simp add: clean_number_eval)
    show "int_of_str [49, 50, 51, 52, 53, 54, 55] = Some 1234567"
      by (simp add: int_of_str_eval)
  qed (simp_all add: ustr_def)
  have d: "parse_number (PStr (8364 # ustr '' 25.000'')) = Inr (Some 25000)"
  proof (rule parse_number_parsed)
    show "clean_number (py_str (PStr (8364 # ustr '' 25.000''))) = [50, 53, 48, 48, 48]"
      by (simp add: clean_number_eval)
    show "int_of_str [50, 53, 48, 48, 48] = Some 25000"
      by (simp add: int_of_str_eval)
  qed (simp_all add: ustr_def)
  from e parse_number_NA a b c d show ?thesis by blast
qed

section \<open>Properties of \<open>filter_listings\<close>\<close>

text \<open>
  C6. For every sequence of listings and every criteria, the output of
  \<open>filter_listings\<close> is no longer than the input and is a subsequence of it, in the
  input's order: nothing is reordered and nothing is inserted.
\<close>

theorem filter_listings_subseq:
  "length (filter_listings listings criteria) \<le> length listings \<and>
   subseq (filter_listings listings criteria) listings"
  by (simp add: filter_listings_eq)

text \<open>
  C5. Identity law: when the criteria set no bound (each of \<open>modelYear\<close>, \<open>mileage\<close>
  and \<open>price\<close> is absent or false), \<open>filter_listings\<close> returns the input sequence
  unchanged.
\<close>

theorem filter_listings_no_bounds:
  assumes "\<not> truthy (dget criteria ''modelYear'' PNone)"
    and "\<not> truthy (dget criteria ''mileage'' PNone)"
    and "\<not> truthy (dget criteria ''price'' PNone)"
  shows "filter_listings listings criteria = listings"
proof -
  have "filter_item item criteria \<noteq> Inr False" for item
    using assms
    by (simp add: filter_item_def year_filter_def max_filter_def split: sum.splits)
  then show ?thesis
    by (simp add: filter_listings_eq)
qed

theorem filter_listings_no_bounds_witness:
  "filter_listings
     [[(ustr ''title'', PStr (ustr ''A'')), (ustr ''price'', PStr (ustr ''45,000''))],
      [(ustr ''year'', PStr (ustr ''abc''))], []] []
   = [[(ustr ''title'', PStr (ustr ''A'')), (ustr ''price'', PStr (ustr ''45,000''))],
      [(ustr ''year'', PStr (ustr ''abc''))], []]"
  by (rule filter_listings_no_bounds) (simp_all add: dget_def)

theorem parse_number_examples_witness:
  "parse_number (PStr (ustr ''1.234.567'')) = Inr (Some 1234567)"
  using parse_number_examples by blast

theorem filter_listings_subseq_witness:
  "length (filter_listings [[(ustr ''mileage'', PStr (ustr ''N/A''))], []] [(ustr ''price'', PInt 5)])
     \<le> length [[(ustr ''mileage'', PStr (ustr ''N/A''))], ([] :: pydict)] \<and>
   subseq (filter_listings [[(ustr ''mileage'', PStr (ustr ''N/A''))], []] [(ustr ''price'', PInt 5)])
     [[(ustr ''mileage'', PStr (ustr ''N/A''))], []]"
  by (rule filter_listings_subseq)

section \<open>Evaluating the filter on concrete listings\<close>

lemma ustr_eq_iff [simp]: "ustr a = ustr b \<longleftrightarrow> a = b"
  by (simp add: ustr_def inj_map_eq_map inj_of_char)

lemma ustr_Nil_iff [simp]: "ustr a = [] \<longleftrightarrow> a = []"
  by (simp add: ustr_def)

lemma parse_number_digits:
  "parse_number (PStr (ustr ''50000'')) = Inr (Some 50000)"
  "parse_number (PStr (ustr ''20000'')) = Inr (Some 20000)"
  "parse_number (PStr (ustr ''30000'')) = Inr (Some 30000)"
proof -
  show "parse_number (PStr (ustr ''50000'')) = Inr (Some 50000)"
  proof (rule parse_number_parsed)
    show "clean_number (py_str (PStr (ustr ''50000''))) = [53, 48, 48, 48, 48]"
      by (simp add: clean_number_eval)
    show "int_of_str [53, 48, 48, 48, 48] = Some 50000"
      by (simp add: int_of_str_eval)
  qed simp_all
  show "parse_number (PStr (ustr ''20000'')) = Inr (Some 20000)"
  proof (rule parse_number_parsed)
    show "clean_number (py_str (PStr (ustr ''20000''))) = [50, 48, 48, 48, 48]"
      by (simp add: clean_number_eval)
    show "int_of_str [50, 48, 48, 48, 48] = Some 20000"
      by (simp add: int_of_str_eval)
  qed simp_all
  show "parse_number (PStr (ustr ''30000'')) = Inr (Some 30000)"
  proof (rule parse_number_parsed)
    show "clean_number (py_str (PStr (ustr ''30000''))) = [51, 48, 48, 48, 48]"
      by (simp add: clean_number_eval)
    show "int_of_str [51, 48, 48, 48, 48] = Some 30000"
      by (simp add: int_of_str_eval)
  qed simp_all
qed


lemma parse_year_absent: "map_of item (ustr ''year'') = None \<Longrightarrow> parse_year item = Inr None"
  by (simp add: parse_year_def dget_def)



lemma filter_item_checks:
  assumes "parse_year item = Inr year"
    and "parse_number (dget item ''mileage'' (PStr [])) = Inr mileage"
    and "parse_number (dget item ''price'' (PStr [])) = Inr price"
    and "year_filter criteria year = Inr a"
    and "max_filter criteria ''mileage'' mileage = Inr b"
    and "max_filter criteria ''price'' price = Inr c"
  shows "filter_item item criteria = Inr (\<not> a \<and> \<not> b \<and> \<not> c)"
  using assms by (simp add: filter_item_def split: bool.splits)

section \<open>Which listings the filter excludes\<close>

lemma filter_item_excluded_by:
  assumes "filter_item item criteria = Inr False"
  shows "excluded_by_year item criteria \<or> excluded_by_max ''mileage'' item criteria \<or>
         excluded_by_max ''price'' item criteria"
  using assms unfolding excluded_by_year_def excluded_by_max_def
  by (auto simp: filter_item_def split: sum.splits bool.splits)

lemma max_filter_None: "max_filter criteria key None \<noteq> Inr True"
  by (simp add: max_filter_def split: sum.splits)



lemma year_filter_None: "year_filter criteria None \<noteq> Inr True"
  by (simp add: year_filter_def split: sum.splits)

lemma excluded_iff:
  "item \<in> set listings \<Longrightarrow>
   item \<notin> set (filter_listings listings criteria) \<longleftrightarrow> filter_item item criteria = Inr False"
  by (simp add: filter_listings_eq)

lemma filter_listings_raise_kept:
  assumes "item \<in> set listings" and "filter_item item criteria = Inl e"
  shows "item \<in> set (filter_listings listings criteria)"
  using assms by (simp add: filter_listings_eq)

text \<open>
  C1 as stated fails: a listing whose mileage is unparsable is still excluded when its
  price exceeds the price bound. Here the mileage is \<open>N/A\<close>, the mileage bound is set,
  and the filter drops the listing because 50000 exceeds the price bound 20000.
\<close>

theorem unparsable_mileage_counterexample:
  "parse_number (dget [(ustr ''mileage'', PStr (ustr ''N/A'')), (ustr ''price'', PStr (ustr ''50000''))]
      ''mileage'' (PStr [])) = Inr None \<and>
   truthy (dget [(ustr ''mileage'', PInt 10000), (ustr ''price'', PInt 20000)] ''mileage'' PNone) \<and>
   filter_listings [[(ustr ''mileage'', PStr (ustr ''N/A'')), (ustr ''price'', PStr (ustr ''50000''))]]
      [(ustr ''mileage'', PInt 10000), (ustr ''price'', PInt 20000)] = []"
proof -
  let ?item = "[(ustr ''mileage'', PStr (ustr ''N/A'')), (ustr ''price'', PStr (ustr ''50000''))]"
  let ?criteria = "[(ustr ''mileage'', PInt 10000), (ustr ''price'', PInt 20000)]"
  have m: "parse_number (dget ?item ''mileage'' (PStr [])) = Inr None"
    by (simp add: dget_def parse_number_NA)
  have p: "parse_number (dget ?item ''price'' (PStr [])) = Inr (Some 50000)"
    by (simp add: dget_def parse_number_digits)
  have "filter_item ?item ?criteria = Inr (\<not> False \<and> \<not> False \<and> \<not> True)"
    by (rule filter_item_checks [OF parse_year_absent m p])
      (simp_all add: year_filter_def max_filter_def dget_def)
  then show ?thesis
    using m by (simp add: dget_def)
qed

text \<open>
  C1, amended. Fail-open filtering: for every listing whose mileage (resp. price) field
  is unparsable (\<open>parse_number\<close> returns \<open>None\<close>) and every criteria, in particular
  those that set the corresponding max bound, that bound never excludes the listing:
  the filter retains it unless the year check or the other max check excludes it.
\<close>

theorem unparsable_field_fail_open:
  assumes "item \<in> set listings"
  shows "(parse_number (dget item ''mileage'' (PStr [])) = Inr None \<and>
          \<not> excluded_by_year item criteria \<and> \<not> excluded_by_max ''price'' item criteria
            \<longrightarrow> item \<in> set (filter_listings listings criteria)) \<and>
         (parse_number (dget item ''price'' (PStr [])) = Inr None \<and>
          \<not> excluded_by_year item criteria \<and> \<not> excluded_by_max ''mileage'' item criteria
            \<longrightarrow> item \<in> set (filter_listings listings criteria))"
proof -
  have m: "\<not> excluded_by_max key item criteria"
    if "parse_number (dget item key (PStr [])) = Inr None" for key
    using that by (simp add: excluded_by_max_def max_filter_None)
  have k: "item \<in> set (filter_listings listings criteria)"
    if "\<not> excluded_by_year item criteria" "\<not> excluded_by_max ''mileage'' item criteria"
      "\<not> excluded_by_max ''price'' item criteria"
    using that assms filter_item_excluded_by [of item criteria]
      excluded_iff [of item listings criteria]
    by blast
  show ?thesis
    using m k by blast
qed

theorem unparsable_field_fail_open_witness:
  "parse_number (dget [(ustr ''mileage'', PStr (ustr ''N/A'')), (ustr ''price'', PStr (ustr ''20000''))]
      ''mileage'' (PStr [])) = Inr None \<and>
   truthy (dget [(ustr ''mileage'', PInt 10000), (ustr ''price'', PInt 30000)] ''mileage'' PNone) \<and>
   [(ustr ''mileage'', PStr (ustr ''N/A'')), (ustr ''price'', PStr (ustr ''20000''))]
     \<in> set (filter_listings
         [[(ustr ''mileage'', PStr (ustr ''N/A'')), (ustr ''price'', PStr (ustr ''20000''))]]
         [(ustr ''mileage'', PInt 10000), (ustr ''price'', PInt 30000)])"
proof -
  let ?item = "[(ustr ''mileage'', PStr (ustr ''N/A'')), (ustr ''price'', PStr (ustr ''20000''))]"
  let ?criteria = "[(ustr ''mileage'', PInt 10000), (ustr ''price'', PInt 30000)]"
  have m: "parse_number (dget ?item ''mileage'' (PStr [])) = Inr None"
    by (simp add: dget_def parse_number_NA)
  have p: "parse_number (dget ?item ''price'' (PStr [])) = Inr (Some 20000)"
    by (simp add: dget_def parse_number_digits)
  have y: "\<not> excluded_by_year ?item ?criteria"
    by (simp add: excluded_by_year_def parse_year_absent year_filter_None)
  have x: "\<not> excluded_by_max ''price'' ?item ?criteria"
    unfolding excluded_by_max_def p by (simp add: max_filter_def dget_def)
  have t: "truthy (dget ?criteria ''mileage'' PNone)"
    by (simp add: dget_def)
  have "?item \<in> set [?item]"
    by simp
  from unparsable_field_fail_open [OF this, of ?criteria] m y x t show ?thesis
    by blast
qed






text \<open>
  C8, the part on \<open>parse_number\<close>. On the string made of the superscript two (code
  point 178) the first \<open>int\<close> raises \<open>ValueError\<close>; \<open>isdigit\<close> accepts the character,
  so the handler calls \<open>int\<close> on the same string, and that \<open>ValueError\<close> leaves
  \<open>parse_number\<close>.
\<close>

theorem parse_number_superscript_raises:
  "parse_number (PStr [178]) = Inl ValueError"
proof -
  have c: "clean_number [178] = [178]"
    by (simp add: clean_number_eval)
  have d: "decimal_value 178 = None"
    by (simp add: decimal_value_def decimal_zeros_def)
  have i: "int_of_str [178] = None"
    by (simp add: int_of_str_def int_space_def py_isspace_def scan_number_def d)
  have f: "find (\<lambda>(lo, hi). lo \<le> (178::nat) \<and> 178 \<le> hi) other_digits = Some (178, 179)"
    by (simp add: other_digits_def)
  have g: "py_isdigit 178"
    unfolding py_isdigit_def f by simp
  show ?thesis
    by (simp add: parse_number_def c i g ustr_def)
qed

theorem parse_number_superscript_raises_witness:
  "parse_number (PStr [178]) \<noteq> Inr None \<and> parse_number (PStr [178]) \<noteq> Inr (Some 2)"
  using parse_number_superscript_raises by simp

section \<open>Properties of the normalised record\<close>

lemma str_or_NA_eq: "str_or_NA v = PStr (py_str v)"
  by (simp add: str_or_NA_def NA_def)

lemma extract_price_dict:
  "dget item ''price'' NA = PDict kvs t \<Longrightarrow> extract_price item = dget kvs ''amount'' NA"
  by (simp add: extract_price_def)

lemma extract_price_other:
  "\<forall>kvs t. dget item ''price'' NA \<noteq> PDict kvs t \<Longrightarrow> extract_price item = dget item ''price'' NA"
  by (cases "dget item ''price'' NA") (simp_all add: extract_price_def)

lemma extract_price_absent:
  "map_of item (ustr ''price'') = None \<Longrightarrow> extract_price item = NA"
  by (simp add: extract_price_def dget_def NA_def)

lemma vehicle_details_dict:
  assumes "dget item ''properties'' (PDict [] (ustr ''{}'')) = PDict props ptxt"
  shows "vehicle_details url item =
     Inr [(ustr ''title'', dget item ''title'' NA),
          (ustr ''price'', str_or_NA (extract_price item)),
          (ustr ''url'', dget item ''url'' url),
          (ustr ''mileage'', str_or_NA (dget props ''milage'' (dget item ''mileage'' NA))),
          (ustr ''year'', str_or_NA (dget props ''firstRegistration'' (dget item ''year'' NA))),
          (ustr ''fuel'', dget item ''fuel'' NA),
          (ustr ''transmission'', dget item ''transmission'' NA),
          (ustr ''power'', dget item ''power'' NA),
          (ustr ''properties'', PDict props ptxt)]"
  using assms by (simp add: vehicle_details_def)

lemma vehicle_details_Inr:
  assumes "vehicle_details url item = Inr d"
  shows "\<exists>props ptxt. dget item ''properties'' (PDict [] (ustr ''{}'')) = PDict props ptxt"
  using assms by (cases "dget item ''properties'' (PDict [] (ustr ''{}''))") (simp_all add: vehicle_details_def)

lemma search_listing_dict:
  assumes "dget item ''properties'' (PDict [] (ustr ''{}'')) = PDict props ptxt"
  shows "search_listing item =
     Inr [(ustr ''title'', dget item ''title'' (dget item ''name'' (PStr (ustr ''Vehicle'')))),
          (ustr ''price'', str_or_NA (extract_price item)),
          (ustr ''mileage'', str_or_NA (dget props ''milage'' NA)),
          (ustr ''year'', str_or_NA (dget props ''firstRegistration'' NA)),
          (ustr ''url'', dget item ''url'' (dget item ''link'' (PStr [])))]"
  using assms by (simp add: search_listing_def)

lemma search_listing_Inr:
  assumes "search_listing item = Inr d"
  shows "\<exists>props ptxt. dget item ''properties'' (PDict [] (ustr ''{}'')) = PDict props ptxt"
  using assms by (cases "dget item ''properties'' (PDict [] (ustr ''{}''))") (simp_all add: search_listing_def)

lemma dget_present: "map_of d (ustr key) = Some v \<Longrightarrow> dget d key dflt = v"
  by (simp add: dget_def)

lemma dget_absent: "map_of d (ustr key) = None \<Longrightarrow> dget d key dflt = dflt"
  by (simp add: dget_def)

lemma dget_Cons: "dget ((ustr k, v) # d) key dflt = (if k = key then v else dget d key dflt)"
  by (simp add: dget_def)

lemma dget_Nil: "dget [] key dflt = dflt"
  by (simp add: dget_def)

text \<open>
  C3 as stated fails. On the empty record the url is the URL of the request and the
  properties are the empty dict, not \<open>N/A\<close>; the listing built by \<open>search\<close> has
  five fields, with title \<open>Vehicle\<close> and an empty url; and a record whose
  \<open>properties\<close> is null raises \<open>AttributeError\<close>, so no record is produced.
\<close>

theorem vehicle_details_counterexample:
  "vehicle_details (PStr (ustr ''https://example.org/car/1'')) [] =
     Inr [(ustr ''title'', PStr (ustr ''N/A'')),
          (ustr ''price'', PStr (ustr ''N/A'')),
          (ustr ''url'', PStr (ustr ''https://example.org/car/1'')),
          (ustr ''mileage'', PStr (ustr ''N/A'')),
          (ustr ''year'', PStr (ustr ''N/A'')),
          (ustr ''fuel'', PStr (ustr ''N/A'')),
          (ustr ''transmission'', PStr (ustr ''N/A'')),
          (ustr ''power'', PStr (ustr ''N/A'')),
          (ustr ''properties'', PDict [] (ustr ''{}''))] \<and>
   search_listing [] =
     Inr [(ustr ''title'', PStr (ustr ''Vehicle'')),
          (ustr ''price'', PStr (ustr ''N/A'')),
          (ustr ''mileage'', PStr (ustr ''N/A'')),
          (ustr ''year'', PStr (ustr ''N/A'')),
          (ustr ''url'', PStr [])] \<and>
   vehicle_details (PStr (ustr ''https://example.org/car/1'')) [(ustr ''properties'', PNone)] =
     Inl AttributeError"
  by (simp add: vehicle_details_def search_listing_def extract_price_def str_or_NA_def NA_def
      dget_def Let_def)

text \<open>
  C3, amended. For every record whose \<open>properties\<close> entry is absent or a dict (the
  empty record included), the details built by \<open>get_vehicle_details\<close> hold each of the
  nine fields title, price, url, mileage, year, fuel, transmission, power and
  properties; price, mileage and year are strings; title, price, fuel, transmission and
  power are \<open>N/A\<close> when absent from the record, mileage and year are \<open>N/A\<close> when absent
  both from the properties and from the record; an absent url is the URL of the request
  and absent properties are the empty dict.
\<close>

theorem vehicle_details_defaults:
  assumes "dget item ''properties'' (PDict [] (ustr ''{}'')) = PDict props ptxt"
  shows "\<exists>d. vehicle_details url item = Inr d \<and>
     map fst d = map ustr [''title'', ''price'', ''url'', ''mileage'', ''year'', ''fuel'',
                          ''transmission'', ''power'', ''properties''] \<and>
     (\<exists>s. dget d ''price'' PNone = PStr s) \<and>
     (\<exists>s. dget d ''mileage'' PNone = PStr s) \<and>
     (\<exists>s. dget d ''year'' PNone = PStr s) \<and>
     (\<forall>key \<in> set [''title'', ''price'', ''fuel'', ''transmission'', ''power''].
        map_of item (ustr key) = None \<longrightarrow> dget d key PNone = NA) \<and>
     (map_of item (ustr ''mileage'') = None \<and> map_of props (ustr ''milage'') = None
        \<longrightarrow> dget d ''mileage'' PNone = NA) \<and>
     (map_of item (ustr ''year'') = None \<and> map_of props (ustr ''firstRegistration'') = None
        \<longrightarrow> dget d ''year'' PNone = NA) \<and>
     (map_of item (ustr ''url'') = None \<longrightarrow> dget d ''url'' PNone = url) \<and>
     (map_of item (ustr ''properties'') = None
        \<longrightarrow> dget d ''properties'' PNone = PDict [] (ustr ''{}''))"
proof -
  let ?d = "[(ustr ''title'', dget item ''title'' NA),
          (ustr ''price'', str_or_NA (extract_price item)),
          (ustr ''url'', dget item ''url'' url),
          (ustr ''mileage'', str_or_NA (dget props ''milage'' (dget item ''mileage'' NA))),
          (ustr ''year'', str_or_NA (dget props ''firstRegistration'' (dget item ''year'' NA))),
          (ustr ''fuel'', dget item ''fuel'' NA),
          (ustr ''transmission'', dget item ''transmission'' NA),
          (ustr ''power'', dget item ''power'' NA),
          (ustr ''properties'', PDict props ptxt)]"
  have r: "vehicle_details url item = Inr ?d"
    by (rule vehicle_details_dict [OF assms])
  have k: "map fst ?d = map ustr [''title'', ''price'', ''url'', ''mileage'', ''year'', ''fuel'',
                          ''transmission'', ''power'', ''properties'']"
    by simp
  have s: "(\<exists>s. dget ?d ''price'' PNone = PStr s) \<and> (\<exists>s. dget ?d ''mileage'' PNone = PStr s) \<and>
      (\<exists>s. dget ?d ''year'' PNone = PStr s)"
    by (simp add: dget_Cons str_or_NA_eq)
  have a: "\<forall>key \<in> set [''title'', ''price'', ''fuel'', ''transmission'', ''power''].
        map_of item (ustr key) = None \<longrightarrow> dget ?d key PNone = NA"
    by (simp add: dget_Cons dget_absent extract_price_absent str_or_NA_def)
  have m: "map_of item (ustr ''mileage'') = None \<and> map_of props (ustr ''milage'') = None
        \<longrightarrow> dget ?d ''mileage'' PNone = NA"
    by (simp add: dget_Cons dget_absent str_or_NA_def)
  have y: "map_of item (ustr ''year'') = None \<and> map_of props (ustr ''firstRegistration'') = None
        \<longrightarrow> dget ?d ''year'' PNone = NA"
    by (simp add: dget_Cons dget_absent str_or_NA_def)
  have u: "map_of item (ustr ''url'') = None \<longrightarrow> dget ?d ''url'' PNone = url"
    by (simp add: dget_Cons dget_absent)
  have "map_of item (ustr ''properties'') = None \<longrightarrow> PDict props ptxt = PDict [] (ustr ''{}'')"
    using assms by (auto simp: dget_def)
  then have p: "map_of item (ustr ''properties'') = None
        \<longrightarrow> dget ?d ''properties'' PNone = PDict [] (ustr ''{}'')"
    by (simp add: dget_Cons)
  show ?thesis
    apply (rule exI [of _ ?d])
    apply (intro conjI)
    apply (rule r)
    apply (rule k)
    apply (rule s [THEN conjunct1])
    apply (rule s [THEN conjunct2, THEN conjunct1])
    apply (rule s [THEN conjunct2, THEN conjunct2])
    apply (rule a)
    apply (rule m)
    apply (rule y)
    apply (rule u)
    apply (rule p)
    done
qed

theorem vehicle_details_defaults_witness:
  "\<exists>d. vehicle_details (PStr (ustr ''https://example.org/car/1'')) [] = Inr d \<and>
     map fst d = map ustr [''title'', ''price'', ''url'', ''mileage'', ''year'', ''fuel'',
                          ''transmission'', ''power'', ''properties''] \<and>
     dget d ''title'' PNone = NA \<and> dget d ''price'' PNone = NA \<and>
     dget d ''mileage'' PNone = NA \<and> dget d ''year'' PNone = NA \<and>
     dget d ''fuel'' PNone = NA \<and> dget d ''transmission'' PNone = NA \<and>
     dget d ''power'' PNone = NA \<and>
     dget d ''url'' PNone = PStr (ustr ''https://example.org/car/1'') \<and>
     dget d ''properties'' PNone = PDict [] (ustr ''{}'')"
proof -
  have "dget [] ''properties'' (PDict [] (ustr ''{}'')) = PDict [] (ustr ''{}'')"
    by (rule dget_Nil)
  from vehicle_details_defaults [OF this, of "PStr (ustr ''https://example.org/car/1'')"]
  show ?thesis
    apply (elim exE conjE)
    subgoal for d
      by (rule exI [of _ d]) simp
    done
qed

lemma search_listing_defaults:
  assumes "dget item ''properties'' (PDict [] (ustr ''{}'')) = PDict props ptxt"
  shows "\<exists>l. search_listing item = Inr l \<and>
     map fst l = map ustr [''title'', ''price'', ''mileage'', ''year'', ''url''] \<and>
     (map_of item (ustr ''price'') = None \<longrightarrow> dget l ''price'' PNone = NA) \<and>
     (map_of props (ustr ''milage'') = None \<longrightarrow> dget l ''mileage'' PNone = NA) \<and>
     (map_of props (ustr ''firstRegistration'') = None \<longrightarrow> dget l ''year'' PNone = NA)"
  unfolding search_listing_dict [OF assms]
  by (simp add: dget_Cons dget_absent extract_price_absent str_or_NA_def)

text \<open>
  C7. Extraction precedence, for the details of \<open>get_vehicle_details\<close> and for the
  listing of \<open>search\<close>: when the price of the record is a dict the price is its
  \<open>amount\<close>, otherwise the price value itself; when the properties hold \<open>milage\<close>
  (resp. \<open>firstRegistration\<close>) that value is the mileage (resp. year), whatever the
  record has at top level. Each is passed through \<open>str\<close>.
\<close>

theorem extraction_precedence:
  assumes "vehicle_details url item = Inr d \<or> search_listing item = Inr d"
  shows "(\<forall>kvs t. dget item ''price'' NA = PDict kvs t \<longrightarrow>
            dget d ''price'' PNone = PStr (py_str (dget kvs ''amount'' NA))) \<and>
         ((\<forall>kvs t. dget item ''price'' NA \<noteq> PDict kvs t) \<longrightarrow>
            dget d ''price'' PNone = PStr (py_str (dget item ''price'' NA))) \<and>
         (\<forall>props t m. map_of item (ustr ''properties'') = Some (PDict props t) \<and>
              map_of props (ustr ''milage'') = Some m \<longrightarrow>
            dget d ''mileage'' PNone = PStr (py_str m)) \<and>
         (\<forall>props t y. map_of item (ustr ''properties'') = Some (PDict props t) \<and>
              map_of props (ustr ''firstRegistration'') = Some y \<longrightarrow>
            dget d ''year'' PNone = PStr (py_str y))"
proof -
  from assms obtain props ptxt where
    p: "dget item ''properties'' (PDict [] (ustr ''{}'')) = PDict props ptxt"
    using vehicle_details_Inr search_listing_Inr by blast
  have price: "dget d ''price'' PNone = PStr (py_str (extract_price item))"
    using assms vehicle_details_dict [OF p, of url] search_listing_dict [OF p]
    by (auto simp: dget_def str_or_NA_eq)
  have mileage: "dget d ''mileage'' PNone = PStr (py_str m)"
    if "map_of props (ustr ''milage'') = Some m" for m
    using assms that vehicle_details_dict [OF p, of url] search_listing_dict [OF p]
    by (auto simp: dget_def str_or_NA_eq)
  have year: "dget d ''year'' PNone = PStr (py_str y)"
    if "map_of props (ustr ''firstRegistration'') = Some y" for y
    using assms that vehicle_details_dict [OF p, of url] search_listing_dict [OF p]
    by (auto simp: dget_def str_or_NA_eq)
  have same: "props' = props"
    if "map_of item (ustr ''properties'') = Some (PDict props' t)" for props' t
    using that p by (simp add: dget_def)
  show ?thesis
    using price mileage year same extract_price_dict [of item] extract_price_other [of item]
    by metis
qed

theorem extraction_precedence_witness:
  "vehicle_details (PStr (ustr ''https://example.org/car/1''))
     [(ustr ''price'', PDict [(ustr ''amount'', PStr (ustr ''30000''))] (ustr ''{amount: 30000}'')),
      (ustr ''mileage'', PStr (ustr ''1 km'')),
      (ustr ''properties'',
         PDict [(ustr ''milage'', PStr (ustr ''50.000 km''))] (ustr ''{milage: 50.000 km}''))]
   = Inr [(ustr ''title'', PStr (ustr ''N/A'')),
          (ustr ''price'', PStr (ustr ''30000'')),
          (ustr ''url'', PStr (ustr ''https://example.org/car/1'')),
          (ustr ''mileage'', PStr (ustr ''50.000 km'')),
          (ustr ''year'', PStr (ustr ''N/A'')),
          (ustr ''fuel'', PStr (ustr ''N/A'')),
          (ustr ''transmission'', PStr (ustr ''N/A'')),
          (ustr ''power'', PStr (ustr ''N/A'')),
          (ustr ''properties'',
             PDict [(ustr ''milage'', PStr (ustr ''50.000 km''))] (ustr ''{milage: 50.000 km}''))] \<and>
   dget [(ustr ''title'', PStr (ustr ''N/A'')),
          (ustr ''price'', PStr (ustr ''30000'')),
          (ustr ''url'', PStr (ustr ''https://example.org/car/1'')),
          (ustr ''mileage'', PStr (ustr ''50.000 km'')),
          (ustr ''year'', PStr (ustr ''N/A'')),
          (ustr ''fuel'', PStr (ustr ''N/A'')),
          (ustr ''transmission'', PStr (ustr ''N/A'')),
          (ustr ''power'', PStr (ustr ''N/A'')),
          (ustr ''properties'',
             PDict [(ustr ''milage'', PStr (ustr ''50.000 km''))] (ustr ''{milage: 50.000 km}''))]
      ''mileage'' PNone = PStr (py_str (PStr (ustr ''50.000 km'')))"
proof -
  let ?url = "PStr (ustr ''https://example.org/car/1'')"
  let ?props = "PDict [(ustr ''milage'', PStr (ustr ''50.000 km''))] (ustr ''{milage: 50.000 km}'')"
  let ?item = "[(ustr ''price'', PDict [(ustr ''amount'', PStr (ustr ''30000''))] (ustr ''{amount: 30000}'')),
      (ustr ''mileage'', PStr (ustr ''1 km'')), (ustr ''properties'', ?props)]"
  let ?d = "[(ustr ''title'', PStr (ustr ''N/A'')),
          (ustr ''price'', PStr (ustr ''30000'')),
          (ustr ''url'', ?url),
          (ustr ''mileage'', PStr (ustr ''50.000 km'')),
          (ustr ''year'', PStr (ustr ''N/A'')),
          (ustr ''fuel'', PStr (ustr ''N/A'')),
          (ustr ''transmission'', PStr (ustr ''N/A'')),
          (ustr ''power'', PStr (ustr ''N/A'')),
          (ustr ''properties'', ?props)]"
  have r: "vehicle_details ?url ?item = Inr ?d"
    by (simp add: vehicle_details_def extract_price_def str_or_NA_def NA_def dget_def Let_def)
  then have "vehicle_details ?url ?item = Inr ?d \<or> search_listing ?item = Inr ?d"
    by (rule disjI1)
  from extraction_precedence [OF this]
  have "dget ?d ''mileage'' PNone = PStr (py_str (PStr (ustr ''50.000 km'')))"
    by simp
  with r show ?thesis
    by (rule conjI)
qed

section \<open>Properties of \<open>save_vehicle_to_db\<close>\<close>

lemma select_by_url_Some:
  assumes "select_by_url u db = Some r"
  shows "r \<in> set (rows db) \<and> row_url r = Some u"
  using assms unfolding select_by_url_def by (auto simp: find_Some_iff)

lemma select_by_url_None:
  "select_by_url u db = None \<longleftrightarrow> Some u \<notin> set (map row_url (rows db))"
  unfolding select_by_url_def by (force simp: find_None_iff)

lemma insert_vehicle_unique:
  assumes "unique_urls db"
  shows "unique_urls (snd (insert_vehicle dbt vehicle_data url properties_json db))"
proof (cases url)
  case None
  then show ?thesis
    using assms
    by (simp add: insert_vehicle_def unique_urls_def map_filter_simps List.map_filter_def
        split: option.splits)
next
  case (Some u)
  have "u \<notin> set (List.map_filter row_url (rows db))"
    if "Some u \<notin> row_url ` set (rows db)"
    using that by (auto simp: List.map_filter_def image_iff)
  with Some show ?thesis
    using assms
    by (auto simp: insert_vehicle_def unique_urls_def List.map_filter_def split: option.splits)
qed

lemma snd_insert_result:
  "snd (case p of (Inl e, db') \<Rightarrow> (None, db') | (Inr vehicle_id, db') \<Rightarrow> (Some vehicle_id, db')) = snd p"
  by (auto split: prod.splits sum.splits)

lemma save_vehicle_db:
  "snd (save_vehicle_to_db dbt properties_json vehicle_data db) = db \<or>
   (\<exists>url. snd (save_vehicle_to_db dbt properties_json vehicle_data db) =
      snd (insert_vehicle dbt vehicle_data url properties_json db))"
  unfolding save_vehicle_to_db_def Let_def
  by (cases "case (case map_of vehicle_data (ustr ''url'') of None \<Rightarrow> Some [] | Some v \<Rightarrow> v) of
        None \<Rightarrow> None | Some u \<Rightarrow> if u \<noteq> [] then select_by_url u db else None")
    (auto simp: snd_insert_result)

text \<open>
  C9 as stated fails for the empty url. The lookup is skipped when the url is empty, so
  with a row of url \<open>''\<close> in the table the insert runs into the \<open>UNIQUE\<close> constraint
  and \<open>save_vehicle_to_db\<close> returns \<open>None\<close>, not the id 1 of the existing row.
\<close>

theorem save_vehicle_empty_url_counterexample:
  "Some [] \<in> set (map row_url (rows
      \<lparr>rows = [\<lparr>row_id = 1, row_title = ustr ''Car'', row_price = None, row_mileage = None,
                row_year = None, row_fuel = None, row_transmission = None, row_power = None,
                row_url = Some [], row_properties = None\<rparr>],
       next_id = 2\<rparr>)) \<and>
   save_vehicle_to_db Sqlite None [(ustr ''title'', Some (ustr ''Car'')), (ustr ''url'', Some [])]
      \<lparr>rows = [\<lparr>row_id = 1, row_title = ustr ''Car'', row_price = None, row_mileage = None,
                row_year = None, row_fuel = None, row_transmission = None, row_power = None,
                row_url = Some [], row_properties = None\<rparr>],
       next_id = 2\<rparr>
   = (None,
      \<lparr>rows = [\<lparr>row_id = 1, row_title = ustr ''Car'', row_price = None, row_mileage = None,
                row_year = None, row_fuel = None, row_transmission = None, row_power = None,
                row_url = Some [], row_properties = None\<rparr>],
       next_id = 2\<rparr>)"
  by (simp add: save_vehicle_to_db_def insert_vehicle_def vget_def)

text \<open>
  C9, amended. Upsert by url: for every vehicle record whose url is not empty and is
  the url of a row of the table, \<open>save_vehicle_to_db\<close> returns the id of that row and
  leaves the table as it was; and whatever the record, if no two rows shared a non-null
  url before the call, none do after it.
\<close>

theorem save_vehicle_existing_url:
  assumes "unique_urls db"
  shows "(map_of vehicle_data (ustr ''url'') = Some (Some u) \<and> u \<noteq> [] \<and>
            Some u \<in> set (map row_url (rows db)) \<longrightarrow>
          (\<exists>r \<in> set (rows db). row_url r = Some u \<and>
             save_vehicle_to_db dbt properties_json vehicle_data db = (Some (row_id r), db))) \<and>
         unique_urls (snd (save_vehicle_to_db dbt properties_json vehicle_data db))"
proof (intro conjI impI)
  assume a: "map_of vehicle_data (ustr ''url'') = Some (Some u) \<and> u \<noteq> [] \<and>
            Some u \<in> set (map row_url (rows db))"
  then obtain r where r: "select_by_url u db = Some r"
    using select_by_url_None [of u db] by (cases "select_by_url u db") auto
  then have "save_vehicle_to_db dbt properties_json vehicle_data db = (Some (row_id r), db)"
    using a by (simp add: save_vehicle_to_db_def)
  with select_by_url_Some [OF r]
  show "\<exists>r \<in> set (rows db). row_url r = Some u \<and>
      save_vehicle_to_db dbt properties_json vehicle_data db = (Some (row_id r), db)"
    by blast
next
  show "unique_urls (snd (save_vehicle_to_db dbt properties_json vehicle_data db))"
    using assms insert_vehicle_unique [OF assms] save_vehicle_db [of dbt properties_json vehicle_data db]
    by auto
qed

theorem save_vehicle_existing_url_witness:
  "unique_urls
     \<lparr>rows = [\<lparr>row_id = 1, row_title = ustr ''Car'', row_price = None, row_mileage = None,
               row_year = None, row_fuel = None, row_transmission = None, row_power = None,
               row_url = Some (ustr ''https://example.org/car/1''), row_properties = None\<rparr>],
      next_id = 2\<rparr> \<and>
   save_vehicle_to_db Postgres None
     [(ustr ''title'', Some (ustr ''Car'')), (ustr ''url'', Some (ustr ''https://example.org/car/1''))]
     \<lparr>rows = [\<lparr>row_id = 1, row_title = ustr ''Car'', row_price = None, row_mileage = None,
               row_year = None, row_fuel = None, row_transmission = None, row_power = None,
               row_url = Some (ustr ''https://example.org/car/1''), row_properties = None\<rparr>],
      next_id = 2\<rparr>
   = (Some 1,
      \<lparr>rows = [\<lparr>row_id = 1, row_title = ustr ''Car'', row_price = None, row_mileage = None,
               row_year = None, row_fuel = None, row_transmission = None, row_power = None,
               row_url = Some (ustr ''https://example.org/car/1''), row_properties = None\<rparr>],
       next_id = 2\<rparr>)"
proof -
  let ?db = "\<lparr>rows = [\<lparr>row_id = 1, row_title = ustr ''Car'', row_price = None, row_mileage = None,
               row_year = None, row_fuel = None, row_transmission = None, row_power = None,
               row_url = Some (ustr ''https://example.org/car/1''), row_properties = None\<rparr>],
      next_id = 2\<rparr>"
  have u: "unique_urls ?db"
    by (simp add: unique_urls_def map_filter_simps)
  from save_vehicle_existing_url [OF u, of
      "[(ustr ''title'', Some (ustr ''Car'')), (ustr ''url'', Some (ustr ''https://example.org/car/1''))]"
      "ustr ''https://example.org/car/1''" Postgres None]
  show ?thesis
    using u by simp
qed

end
